theory Spec2Isabelle
  imports Complex_Main "HOL-Library.Multiset"
begin

section \<open>Values exchanged with the outside world\<close>

text \<open>
  The application (\<^verbatim>\<open>app.py\<close>) is a Flask program with four JSON routes over two
  SQLAlchemy tables and one unpickled classifier. A parsed JSON body is a value of
  \<open>json\<close>; a JSON object is the parsed Python dict, written as an association list with
  one entry per key.

  A Python float is a value of \<open>pyfloat\<close>: a finite double, given by the real number it
  denotes, one of the two infinities, or NaN. The handlers never compute with floats:
  they make them from the request, hand them to the classifier, store them and print
  them, so no arithmetic on doubles is needed. \<^verbatim>\<open>json.loads\<close> accepts the literals
  \<^verbatim>\<open>NaN\<close>, \<^verbatim>\<open>Infinity\<close> and \<^verbatim>\<open>-Infinity\<close>, and \<^verbatim>\<open>jsonify\<close> prints them, so a JSON
  number with a fraction or exponent carries any \<open>pyfloat\<close>.
\<close>

datatype pyfloat = Finite real | PosInf | NegInf | NaN

datatype json =
    JNull
  | JBool bool
  | JInt int
  | JFloat pyfloat
  | JStr string
  | JArr "json list"
  | JObj "(string \<times> json) list"

text \<open>Python exceptions, each with the text that \<^verbatim>\<open>str(e)\<close> returns.\<close>

datatype exn =
    HTTPException string
  | AttributeError string
  | TypeError string
  | KeyError string
  | ValueError string
  | IndexError string
  | IntegrityError string
  | OperationalError string
  | InterfaceError string
  | RuntimeError string
  | OverflowError string

fun str :: "exn \<Rightarrow> string" where
  "str (HTTPException m) = m"
| "str (AttributeError m) = m"
| "str (TypeError m) = m"
| "str (KeyError m) = m"
| "str (ValueError m) = m"
| "str (IndexError m) = m"
| "str (IntegrityError m) = m"
| "str (OperationalError m) = m"
| "str (InterfaceError m) = m"
| "str (RuntimeError m) = m"
| "str (OverflowError m) = m"

text \<open>Sequencing of steps that may raise: the first exception ends the sequence.\<close>

definition sbind :: "exn + 'a \<Rightarrow> ('a \<Rightarrow> exn + 'b) \<Rightarrow> exn + 'b" where
  "sbind m f = (case m of Inl e \<Rightarrow> Inl e | Inr x \<Rightarrow> f x)"

text \<open>
  The same inside a view function that also carries the database: a step that raises ends
  the view with the database as it is at that point.
\<close>

definition attempt :: "exn + 'a \<Rightarrow> 's \<Rightarrow> ('a \<Rightarrow> (exn + 'b) \<times> 's) \<Rightarrow> (exn + 'b) \<times> 's" where
  "attempt m db f = (case m of Inl e \<Rightarrow> (Inl e, db) | Inr x \<Rightarrow> f x)"

text \<open>A response is the body given to \<^verbatim>\<open>jsonify\<close> and the HTTP status (200 when the
  handler names none).\<close>

type_synonym response = "json \<times> nat"

text \<open>
  What SQLite holds in a String column: text, or a blob when \<^verbatim>\<open>bytes\<close> were bound.
\<close>

datatype cell = Text (chars: string) | Blob string

text \<open>
  Behaviour of the Python runtime and of the SQLite driver that the repository calls but
  does not define. What they do on strings and on \<^verbatim>\<open>None\<close> is fixed in the functions
  below; the rest is left open:
  \<^item> \<open>float_of_str\<close>: \<^verbatim>\<open>float(s)\<close> for a string (which may be an infinity or NaN, as for
    \<^verbatim>\<open>"inf"\<close> and \<^verbatim>\<open>"nan"\<close>), \<open>None\<close> when it raises ValueError;
  \<^item> \<open>float_of_int\<close>: the double nearest to an integer that is within the range of doubles
    but too large to be one exactly;
  \<^item> \<open>sql_text\<close>: the text stored when a value that is neither a string nor \<^verbatim>\<open>None\<close> is
    bound to a String column, or the driver's exception when it cannot be bound;
  \<^item> \<open>format_value\<close>: the text an f-string produces for a value that is not a string;
  \<^item> \<open>sql_object\<close> and \<open>json_object\<close>: what the driver stores and what \<^verbatim>\<open>jsonify\<close>
    prints for an object that is neither \<^verbatim>\<open>str\<close> nor \<^verbatim>\<open>bytes\<close>, given by the name of its
    type and its text, or the exception each of them raises.
\<close>

record runtime =
  float_of_str :: "string \<Rightarrow> pyfloat option"
  float_of_int :: "int \<Rightarrow> real"
  sql_text :: "json \<Rightarrow> exn + string"
  format_value :: "json \<Rightarrow> string"
  sql_object :: "string \<Rightarrow> exn + cell option"
  json_object :: "string \<Rightarrow> exn + json"

text \<open>
  \<^verbatim>\<open>float(v)\<close>. An integer converts exactly up to \<open>2 ^ 53\<close> in magnitude, is rounded to
  the nearest double beyond that, and raises OverflowError when the nearest double would
  be \<open>2 ^ 1024\<close>, that is from \<open>2 ^ 1024 - 2 ^ 970\<close> on.
\<close>

fun py_float :: "runtime \<Rightarrow> json \<Rightarrow> exn + pyfloat" where
  "py_float rt (JFloat x) = Inr x"
| "py_float rt (JInt i) =
     (if \<bar>i\<bar> \<ge> 2 ^ 1024 - 2 ^ 970
      then Inl (OverflowError ''int too large to convert to float'')
      else Inr (Finite (if \<bar>i\<bar> \<le> 2 ^ 53 then of_int i else float_of_int rt i)))"
| "py_float rt (JBool b) = Inr (Finite (if b then 1 else 0))"
| "py_float rt (JStr s) =
     (case float_of_str rt s of
        Some x \<Rightarrow> Inr x
      | None \<Rightarrow> Inl (ValueError (''could not convert string to float: '' @ s)))"
| "py_float rt JNull = Inl (TypeError ''float() argument must be a string or a real number'')"
| "py_float rt (JArr xs) = Inl (TypeError ''float() argument must be a string or a real number'')"
| "py_float rt (JObj kvs) = Inl (TypeError ''float() argument must be a string or a real number'')"

text \<open>\<^verbatim>\<open>data[k]\<close> with a string key\<close>

fun getitem :: "json \<Rightarrow> string \<Rightarrow> exn + json" where
  "getitem (JObj kvs) k = (case map_of kvs k of Some v \<Rightarrow> Inr v | None \<Rightarrow> Inl (KeyError k))"
| "getitem (JArr xs) k = Inl (TypeError ''list indices must be integers or slices, not str'')"
| "getitem (JStr s) k = Inl (TypeError ''string indices must be integers'')"
| "getitem JNull k = Inl (TypeError ''object is not subscriptable'')"
| "getitem (JBool b) k = Inl (TypeError ''object is not subscriptable'')"
| "getitem (JInt i) k = Inl (TypeError ''object is not subscriptable'')"
| "getitem (JFloat x) k = Inl (TypeError ''object is not subscriptable'')"

text \<open>\<^verbatim>\<open>data.get(k)\<close>: \<^verbatim>\<open>None\<close> for a missing key; only a dict has the method.\<close>

fun get :: "json \<Rightarrow> string \<Rightarrow> exn + json" where
  "get (JObj kvs) k = Inr (case map_of kvs k of Some v \<Rightarrow> v | None \<Rightarrow> JNull)"
| "get (JArr xs) k = Inl (AttributeError ''object has no attribute get'')"
| "get (JStr s) k = Inl (AttributeError ''object has no attribute get'')"
| "get JNull k = Inl (AttributeError ''object has no attribute get'')"
| "get (JBool b) k = Inl (AttributeError ''object has no attribute get'')"
| "get (JInt i) k = Inl (AttributeError ''object has no attribute get'')"
| "get (JFloat x) k = Inl (AttributeError ''object has no attribute get'')"

text \<open>\<^verbatim>\<open>xs[0]\<close>\<close>

fun first :: "'a list \<Rightarrow> exn + 'a" where
  "first [] = Inl (IndexError ''index 0 is out of bounds'')"
| "first (x # xs) = Inr x"

text \<open>The text an f-string inserts for a value.\<close>

fun format_str :: "runtime \<Rightarrow> json \<Rightarrow> string" where
  "format_str rt (JStr s) = s"
| "format_str rt JNull = format_value rt JNull"
| "format_str rt (JBool b) = format_value rt (JBool b)"
| "format_str rt (JInt i) = format_value rt (JInt i)"
| "format_str rt (JFloat x) = format_value rt (JFloat x)"
| "format_str rt (JArr xs) = format_value rt (JArr xs)"
| "format_str rt (JObj kvs) = format_value rt (JObj kvs)"

section \<open>The prediction adapter\<close>

definition MODEL_ACCURACY :: real where
  "MODEL_ACCURACY = 99.32"

text \<open>
  The unpickled classifier is opaque: its \<^verbatim>\<open>predict\<close> takes the feature matrix and
  returns the array of labels, or raises.
\<close>

text \<open>
  A label is whatever object the classifier puts in its result: a \<^verbatim>\<open>str\<close> (or a
  subclass such as \<^verbatim>\<open>numpy.str_\<close>), a \<^verbatim>\<open>bytes\<close>, or an object of another type
  (\<^verbatim>\<open>numpy.int64\<close>, \<^verbatim>\<open>None\<close>, ...), which is given by its type and text.
\<close>

datatype label = Str string | Bytes string | Object string

type_synonym predictor = "pyfloat list list \<Rightarrow> exn + label list"

text \<open>Comparison of a float with a number; every comparison with NaN is false.\<close>

fun float_gt :: "pyfloat \<Rightarrow> real \<Rightarrow> bool" where
  "float_gt (Finite x) c = (x > c)"
| "float_gt PosInf c = True"
| "float_gt NegInf c = False"
| "float_gt NaN c = False"

fun float_lt :: "pyfloat \<Rightarrow> real \<Rightarrow> bool" where
  "float_lt (Finite x) c = (x < c)"
| "float_lt PosInf c = False"
| "float_lt NegInf c = True"
| "float_lt NaN c = False"

text \<open>\<^verbatim>\<open>predict_crop_mock(features)\<close>: unpacks seven values, then applies the rule table.\<close>

fun predict_crop_mock :: "pyfloat list \<Rightarrow> exn + string" where
  "predict_crop_mock [N, P, K, temp, humidity, ph, rainfall] =
     Inr (if float_gt N 100 \<and> float_gt temp 25 then ''Cotton''
          else if float_gt K 50 \<and> float_lt ph 6 then ''Rice''
          else if float_gt P 50 \<and> float_lt humidity 70 then ''Wheat''
          else if float_lt temp 20 \<and> float_gt rainfall 200 then ''Grapes''
          else ''Maize'')"
| "predict_crop_mock features = Inl (ValueError ''wrong number of values to unpack'')"

text \<open>
  The module's global names that are bound to the predictor and to the fallback. \<open>model\<close>
  is \<open>None\<close> when the model file is missing or cannot be unpickled; \<open>mock_predictor\<close> is
  the binding of the name \<^verbatim>\<open>predict_crop_mock\<close>.
\<close>

record globals =
  model :: "predictor option"
  mock_predictor :: "pyfloat list \<Rightarrow> exn + string"

definition module_globals :: "predictor option \<Rightarrow> globals" where
  "module_globals m = \<lparr>model = m, mock_predictor = predict_crop_mock\<rparr>"

section \<open>The database\<close>

text \<open>
  SQLite types values, not columns. A String column holds text for everything the
  handlers bind from a request, and a blob when a \<^verbatim>\<open>bytes\<close> object is bound to it; a
  Float column holds a double or NULL, and a NaN that is bound to it is stored as NULL.
\<close>

record Farmer =
  farmer_id :: int
  email :: string
  password :: string

record CropRecommendation =
  rec_id :: int
  farmer_email :: string
  crop_name :: cell
  N :: "pyfloat option"
  P :: "pyfloat option"
  K :: "pyfloat option"
  Temperature :: "pyfloat option"
  Humidity :: "pyfloat option"
  PH :: "pyfloat option"
  Rainfall :: "pyfloat option"

record database =
  farmers :: "Farmer list"
  recommendations :: "CropRecommendation list"

text \<open>
  Every statement goes through the engine. \<open>fault\<close> is the engine's condition during one
  request: \<open>Some msg\<close> when the database cannot be used (file locked or unreadable, table
  missing), and then the statement raises OperationalError with that text.
\<close>

definition execute :: "string option \<Rightarrow> exn + unit" where
  "execute fault = (case fault of Some msg \<Rightarrow> Inl (OperationalError msg) | None \<Rightarrow> Inr ())"

text \<open>A Python value bound to a String column: \<^verbatim>\<open>None\<close> is NULL, a string is itself.\<close>

fun bind_String :: "runtime \<Rightarrow> json \<Rightarrow> exn + string option" where
  "bind_String rt JNull = Inr None"
| "bind_String rt (JStr s) = Inr (Some s)"
| "bind_String rt (JBool b) = sbind (sql_text rt (JBool b)) (\<lambda>s. Inr (Some s))"
| "bind_String rt (JInt i) = sbind (sql_text rt (JInt i)) (\<lambda>s. Inr (Some s))"
| "bind_String rt (JFloat x) = sbind (sql_text rt (JFloat x)) (\<lambda>s. Inr (Some s))"
| "bind_String rt (JArr xs) = sbind (sql_text rt (JArr xs)) (\<lambda>s. Inr (Some s))"
| "bind_String rt (JObj kvs) = sbind (sql_text rt (JObj kvs)) (\<lambda>s. Inr (Some s))"

text \<open>A label bound to a String column.\<close>

fun bind_label :: "runtime \<Rightarrow> label \<Rightarrow> exn + cell option" where
  "bind_label rt (Str s) = Inr (Some (Text s))"
| "bind_label rt (Bytes b) = Inr (Some (Blob b))"
| "bind_label rt (Object t) = sql_object rt t"

text \<open>A float bound to a Float column.\<close>

definition bind_Float :: "pyfloat \<Rightarrow> pyfloat option" where
  "bind_Float x = (if x = NaN then None else Some x)"

text \<open>The integer primary key given to a new row: one more than the largest in the table.\<close>

definition next_id :: "int list \<Rightarrow> int" where
  "next_id ids = (if ids = [] then 1 else Max (set ids) + 1)"

text \<open>\<^verbatim>\<open>Farmer.query.filter_by(email=email).first()\<close>\<close>

definition filter_by_email_first ::
  "runtime \<Rightarrow> string option \<Rightarrow> json \<Rightarrow> database \<Rightarrow> exn + Farmer option" where
  "filter_by_email_first rt fault email_v db =
     sbind (bind_String rt email_v) (\<lambda>e.
     sbind (execute fault) (\<lambda>_.
       Inr (case e of
              None \<Rightarrow> None
            | Some s \<Rightarrow> find (\<lambda>f. email f = s) (farmers db))))"

text \<open>\<^verbatim>\<open>Farmer.query.filter_by(email=email, password=password).first()\<close>\<close>

definition filter_by_email_password_first ::
  "runtime \<Rightarrow> string option \<Rightarrow> json \<Rightarrow> json \<Rightarrow> database \<Rightarrow> exn + Farmer option" where
  "filter_by_email_password_first rt fault email_v password_v db =
     sbind (bind_String rt email_v) (\<lambda>e.
     sbind (bind_String rt password_v) (\<lambda>p.
     sbind (execute fault) (\<lambda>_.
       Inr (case e of
              None \<Rightarrow> None
            | Some s \<Rightarrow>
                (case p of
                   None \<Rightarrow> None
                 | Some t \<Rightarrow> find (\<lambda>f. email f = s \<and> password f = t) (farmers db))))))"

text \<open>
  \<^verbatim>\<open>db.session.add(Farmer(email=email, password=password)); db.session.commit()\<close>.
  The columns are declared \<^verbatim>\<open>nullable=False\<close> and \<^verbatim>\<open>email\<close> is \<^verbatim>\<open>unique=True\<close>; a
  violated constraint raises IntegrityError and the transaction leaves no row.
\<close>

definition add_commit_Farmer ::
  "runtime \<Rightarrow> string option \<Rightarrow> json \<Rightarrow> json \<Rightarrow> database \<Rightarrow> exn + database" where
  "add_commit_Farmer rt fault email_v password_v db =
     sbind (bind_String rt email_v) (\<lambda>e.
     sbind (bind_String rt password_v) (\<lambda>p.
     sbind (execute fault) (\<lambda>_.
       case e of
         None \<Rightarrow> Inl (IntegrityError ''NOT NULL constraint failed: farmer.email'')
       | Some s \<Rightarrow>
           (case p of
              None \<Rightarrow> Inl (IntegrityError ''NOT NULL constraint failed: farmer.password'')
            | Some t \<Rightarrow>
                if s \<in> set (map email (farmers db))
                then Inl (IntegrityError ''UNIQUE constraint failed: farmer.email'')
                else Inr (db\<lparr>farmers := farmers db @
                            [\<lparr>farmer_id = next_id (map farmer_id (farmers db)),
                              email = s, password = t\<rparr>]\<rparr>)))))"

text \<open>
  \<^verbatim>\<open>db.session.add(CropRecommendation(...)); db.session.commit()\<close>. \<^verbatim>\<open>farmer_email\<close>
  and \<^verbatim>\<open>crop_name\<close> are \<^verbatim>\<open>nullable=False\<close>; the seven Float columns are nullable.
\<close>

definition add_commit_CropRecommendation ::
  "runtime \<Rightarrow> string option \<Rightarrow> json \<Rightarrow> label \<Rightarrow>
   pyfloat \<Rightarrow> pyfloat \<Rightarrow> pyfloat \<Rightarrow> pyfloat \<Rightarrow> pyfloat \<Rightarrow> pyfloat \<Rightarrow> pyfloat \<Rightarrow>
   database \<Rightarrow> exn + database" where
  "add_commit_CropRecommendation rt fault farmer_email_v prediction n p k temp hum ph rain db =
     sbind (bind_String rt farmer_email_v) (\<lambda>e.
     sbind (bind_label rt prediction) (\<lambda>c.
     sbind (execute fault) (\<lambda>_.
       case e of
         None \<Rightarrow>
           Inl (IntegrityError ''NOT NULL constraint failed: crop_recommendation.farmer_email'')
       | Some s \<Rightarrow>
           (case c of
              None \<Rightarrow>
                Inl (IntegrityError ''NOT NULL constraint failed: crop_recommendation.crop_name'')
            | Some name \<Rightarrow>
                Inr (db\<lparr>recommendations := recommendations db @
                       [\<lparr>rec_id = next_id (map rec_id (recommendations db)),
                         farmer_email = s, crop_name = name,
                         N = bind_Float n, P = bind_Float p, K = bind_Float k,
                         Temperature = bind_Float temp, Humidity = bind_Float hum,
                         PH = bind_Float ph, Rainfall = bind_Float rain\<rparr>]\<rparr>)))))"

text \<open>\<^verbatim>\<open>Farmer.query.all()\<close>\<close>

definition query_all_Farmer :: "string option \<Rightarrow> database \<Rightarrow> exn + Farmer list" where
  "query_all_Farmer fault db = sbind (execute fault) (\<lambda>_. Inr (farmers db))"

text \<open>\<^verbatim>\<open>CropRecommendation.query.order_by(CropRecommendation.id.desc()).all()\<close>\<close>

definition query_all_CropRecommendation_desc ::
  "string option \<Rightarrow> database \<Rightarrow> exn + CropRecommendation list" where
  "query_all_CropRecommendation_desc fault db =
     sbind (execute fault) (\<lambda>_. Inr (rev (sort_key rec_id (recommendations db))))"

section \<open>The route handlers\<close>

text \<open>
  Each handler takes the runtime, the engine's condition during the request, the result of
  \<^verbatim>\<open>request.get_json()\<close> (\<open>Inl\<close> when Flask cannot parse the body) and the database, and
  returns the response and the database after the request. \<open>Inl e\<close> in place of a response
  means that the exception \<open>e\<close> leaves the view function uncaught.
\<close>

definition register ::
  "runtime \<Rightarrow> string option \<Rightarrow> exn + json \<Rightarrow> database \<Rightarrow> (exn + response) \<times> database" where
  "register rt fault request_json db =
     attempt request_json db (\<lambda>data.
     attempt (get data ''email'') db (\<lambda>email.
     attempt (get data ''password'') db (\<lambda>password.
     attempt (filter_by_email_first rt fault email db) db (\<lambda>existing.
       case existing of
         Some f \<Rightarrow>
           (Inr (JObj [(''success'', JBool False),
                       (''message'', JStr ''Email already registered!'')], 400), db)
       | None \<Rightarrow>
           attempt (add_commit_Farmer rt fault email password db) db (\<lambda>db'.
             (Inr (JObj [(''success'', JBool True),
                         (''message'', JStr ''Registration successful!'')], 200), db'))))))"

definition login ::
  "runtime \<Rightarrow> string option \<Rightarrow> exn + json \<Rightarrow> database \<Rightarrow> exn + response" where
  "login rt fault request_json db =
     sbind request_json (\<lambda>data.
     sbind (get data ''email'') (\<lambda>email.
     sbind (get data ''password'') (\<lambda>password.
     sbind (filter_by_email_password_first rt fault email password db) (\<lambda>farmer.
       Inr (case farmer of
              Some f \<Rightarrow>
                (JObj [(''success'', JBool True),
                       (''message'', JStr (''Welcome '' @ format_str rt email @ ''!''))], 200)
            | None \<Rightarrow>
                (JObj [(''success'', JBool False),
                       (''message'', JStr ''Invalid credentials.'')], 401))))))"

text \<open>
  \<^verbatim>\<open>jsonify\<close> of a label, and of a value read from a String column (text is read as
  \<^verbatim>\<open>str\<close>, a blob as \<^verbatim>\<open>bytes\<close>).
\<close>

fun jsonify_label :: "runtime \<Rightarrow> label \<Rightarrow> exn + json" where
  "jsonify_label rt (Str s) = Inr (JStr s)"
| "jsonify_label rt (Bytes b) =
     Inl (TypeError ''Object of type bytes is not JSON serializable'')"
| "jsonify_label rt (Object t) = json_object rt t"

fun jsonify_cell :: "cell \<Rightarrow> exn + json" where
  "jsonify_cell (Text s) = Inr (JStr s)"
| "jsonify_cell (Blob b) = Inl (TypeError ''Object of type bytes is not JSON serializable'')"

text \<open>
  The \<^verbatim>\<open>try\<close> block of \<^verbatim>\<open>crop_recommendation\<close>. The database changes at the
  commit and nowhere else; a commit that raises leaves no row. The response is built
  after the commit: when \<^verbatim>\<open>jsonify\<close> raises there, the committed row is in the database.
\<close>

definition crop_recommendation_try ::
  "runtime \<Rightarrow> predictor \<Rightarrow> string option \<Rightarrow> exn + json \<Rightarrow> database \<Rightarrow>
   (exn + response) \<times> database" where
  "crop_recommendation_try rt m fault request_json db =
     attempt request_json db (\<lambda>data.
     attempt (sbind (getitem data ''N'') (py_float rt)) db (\<lambda>N.
     attempt (sbind (getitem data ''P'') (py_float rt)) db (\<lambda>P.
     attempt (sbind (getitem data ''K'') (py_float rt)) db (\<lambda>K.
     attempt (sbind (getitem data ''Temperature'') (py_float rt)) db (\<lambda>Temp.
     attempt (sbind (getitem data ''Humidity'') (py_float rt)) db (\<lambda>Hum.
     attempt (sbind (getitem data ''PH'') (py_float rt)) db (\<lambda>PH.
     attempt (sbind (getitem data ''Rainfall'') (py_float rt)) db (\<lambda>Rain.
     attempt (getitem data ''farmer_email'') db (\<lambda>farmer_email.
     let features = [[N, P, K, Temp, Hum, PH, Rain]] in
     attempt (sbind (m features) first) db (\<lambda>prediction.
     attempt (add_commit_CropRecommendation rt fault farmer_email prediction
                N P K Temp Hum PH Rain db) db (\<lambda>db'.
     attempt (jsonify_label rt prediction) db' (\<lambda>recommended_crop.
       (Inr (JObj [(''success'', JBool True),
                   (''recommended_crop'', recommended_crop),
                   (''model_accuracy'', JFloat (Finite MODEL_ACCURACY)),
                   (''message'', JStr ''Crop recommended successfully!'')], 200),
        db')))))))))))))"

definition crop_recommendation ::
  "runtime \<Rightarrow> globals \<Rightarrow> string option \<Rightarrow> exn + json \<Rightarrow> database \<Rightarrow> response \<times> database" where
  "crop_recommendation rt g fault request_json db =
     (case model g of
        None \<Rightarrow>
          ((JObj [(''success'', JBool False),
                  (''message'', JStr ''ML Model is not loaded.'')], 503), db)
      | Some m \<Rightarrow>
          (case crop_recommendation_try rt m fault request_json db of
             (Inr resp, db') \<Rightarrow> (resp, db')
           | (Inl e, db') \<Rightarrow>
               ((JObj [(''success'', JBool False),
                       (''message'', JStr ''Error processing request. Check input data.'')],
                 500), db')))"

text \<open>
  One entry of \<^verbatim>\<open>farmer_list\<close> and one of \<^verbatim>\<open>rec_list\<close>, as \<^verbatim>\<open>jsonify\<close> prints them;
  it raises at a value that JSON cannot carry.
\<close>

definition farmer_entry :: "Farmer \<Rightarrow> json" where
  "farmer_entry f = JObj [(''id'', JInt (farmer_id f)), (''email'', JStr (email f))]"

definition json_float :: "pyfloat option \<Rightarrow> json" where
  "json_float x = (case x of None \<Rightarrow> JNull | Some v \<Rightarrow> JFloat v)"

definition rec_entry :: "CropRecommendation \<Rightarrow> exn + json" where
  "rec_entry r =
     sbind (jsonify_cell (crop_name r)) (\<lambda>name.
       Inr (JObj [(''id'', JInt (rec_id r)),
                  (''farmer_email'', JStr (farmer_email r)),
                  (''crop_name'', name),
                  (''N'', json_float (N r)),
                  (''P'', json_float (P r)),
                  (''K'', json_float (K r)),
                  (''Temperature'', json_float (Temperature r)),
                  (''Humidity'', json_float (Humidity r)),
                  (''PH'', json_float (PH r)),
                  (''Rainfall'', json_float (Rainfall r))]))"

text \<open>The entries of a list in order; the first one that raises ends the response.\<close>

fun jsonify_all :: "('a \<Rightarrow> exn + json) \<Rightarrow> 'a list \<Rightarrow> exn + json list" where
  "jsonify_all f [] = Inr []"
| "jsonify_all f (x # xs) =
     sbind (f x) (\<lambda>y. sbind (jsonify_all f xs) (\<lambda>ys. Inr (y # ys)))"

definition admin_data :: "string option \<Rightarrow> database \<Rightarrow> response" where
  "admin_data fault db =
     (case sbind (query_all_Farmer fault db) (\<lambda>farmers.
           let farmer_list = map farmer_entry farmers in
           sbind (query_all_CropRecommendation_desc fault db) (\<lambda>recs.
           sbind (jsonify_all rec_entry recs) (\<lambda>rec_list.
             Inr (JObj [(''success'', JBool True),
                        (''farmers'', JArr farmer_list),
                        (''recommendations'', JArr rec_list)], 200)))) of
        Inr resp \<Rightarrow> resp
      | Inl e \<Rightarrow>
          (JObj [(''success'', JBool False), (''message'', JStr (str e))], 500))"

section \<open>Sequences of requests\<close>

datatype call =
    Register "exn + json"
  | Login "exn + json"
  | Crop_recommendation "exn + json"
  | Admin_data

text \<open>The database after one request; each request meets its own engine condition.\<close>

fun step :: "runtime \<Rightarrow> globals \<Rightarrow> string option \<times> call \<Rightarrow> database \<Rightarrow> database" where
  "step rt g (fault, Register rq) db = snd (register rt fault rq db)"
| "step rt g (fault, Login rq) db = db"
| "step rt g (fault, Crop_recommendation rq) db = snd (crop_recommendation rt g fault rq db)"
| "step rt g (fault, Admin_data) db = db"

definition run :: "runtime \<Rightarrow> globals \<Rightarrow> (string option \<times> call) list \<Rightarrow> database \<Rightarrow> database" where
  "run rt g cs db = fold (step rt g) cs db"

definition unique_emails :: "database \<Rightarrow> bool" where
  "unique_emails db = distinct (map email (farmers db))"

text \<open>
  Referential integrity, which the schema does not declare: every recommendation's
  \<^verbatim>\<open>farmer_email\<close> is the email of a stored farmer.
\<close>

definition referential_integrity :: "database \<Rightarrow> bool" where
  "referential_integrity db =
     list_all (\<lambda>r. farmer_email r \<in> set (map email (farmers db))) (recommendations db)"


section \<open>Concrete inputs\<close>

text \<open>
  A runtime that parses the strings used below and binds no other value, a classifier
  that labels every row \<^verbatim>\<open>rice\<close>, one whose labels are \<^verbatim>\<open>bytes\<close>, one that raises, and
  the requests of the scenarios of the specification.
\<close>

definition example_runtime :: runtime where
  "example_runtime =
     \<lparr>float_of_str =
        (\<lambda>s. if s = ''120'' then Some (Finite 120)
             else if s = ''6.5'' then Some (Finite 6.5)
             else if s = ''nan'' then Some NaN
             else None),
      float_of_int = of_int,
      sql_text = (\<lambda>v. Inl (InterfaceError ''Error binding parameter: type is not supported'')),
      format_value = (\<lambda>v. ''None''),
      sql_object =
        (\<lambda>t. Inl (InterfaceError ''Error binding parameter: type is not supported'')),
      json_object = (\<lambda>t. Inl (TypeError ''Object is not JSON serializable''))\<rparr>"

definition rice_model :: predictor where
  "rice_model features = Inr (map (\<lambda>row. Str ''rice'') features)"

definition bytes_model :: predictor where
  "bytes_model features = Inr (map (\<lambda>row. Bytes ''rice'') features)"


definition empty_db :: database where
  "empty_db = \<lparr>farmers = [], recommendations = []\<rparr>"

definition soil_data :: json where
  "soil_data =
     JObj [(''N'', JInt 120), (''P'', JInt 10), (''K'', JInt 10),
           (''Temperature'', JInt 30), (''Humidity'', JInt 50), (''PH'', JStr ''6.5''),
           (''Rainfall'', JInt 100), (''farmer_email'', JStr ''asha@farm.in'')]"


definition nan_data :: json where
  "nan_data =
     JObj [(''N'', JStr ''nan''), (''P'', JInt 10), (''K'', JInt 10),
           (''Temperature'', JInt 30), (''Humidity'', JInt 50), (''PH'', JStr ''6.5''),
           (''Rainfall'', JInt 100), (''farmer_email'', JStr ''asha@farm.in'')]"


definition no_email_data :: json where
  "no_email_data =
     JObj [(''N'', JInt 120), (''P'', JInt 10), (''K'', JInt 10),
           (''Temperature'', JInt 30), (''Humidity'', JInt 50), (''PH'', JInt 5),
           (''Rainfall'', JInt 100)]"

definition credentials :: "string \<Rightarrow> string \<Rightarrow> exn + json" where
  "credentials e p = Inr (JObj [(''email'', JStr e), (''password'', JStr p)])"

definition asha :: Farmer where
  "asha = \<lparr>farmer_id = 1, email = ''asha@farm.in'', password = ''monsoon''\<rparr>"

definition ravi :: Farmer where
  "ravi = \<lparr>farmer_id = 2, email = ''ravi@farm.in'', password = ''kharif''\<rparr>"

definition rice_row :: "int \<Rightarrow> string \<Rightarrow> CropRecommendation" where
  "rice_row i e =
     \<lparr>rec_id = i, farmer_email = e, crop_name = Text ''rice'',
      N = Some (Finite 120), P = Some (Finite 10), K = Some (Finite 10),
      Temperature = Some (Finite 30), Humidity = Some (Finite 50),
      PH = Some (Finite 6.5), Rainfall = Some (Finite 100)\<rparr>"

definition example_db :: database where
  "example_db =
     \<lparr>farmers = [asha, ravi],
      recommendations = [rice_row 1 ''asha@farm.in'', rice_row 2 ''nobody@farm.in'']\<rparr>"

section \<open>Basic facts\<close>

lemma sbind_simps [simp]:
  "sbind (Inl e) f = Inl e"
  "sbind (Inr x) f = f x"
  by (simp_all add: sbind_def)

lemma attempt_simps [simp]:
  "attempt (Inl e) db f = (Inl e, db)"
  "attempt (Inr x) db f = f x"
  by (simp_all add: attempt_def)

lemma execute_simps [simp]:
  "execute None = Inr ()"
  "execute (Some msg) = Inl (OperationalError msg)"
  by (simp_all add: execute_def)

text \<open>A new primary key is not in use.\<close>

lemma next_id_fresh: "next_id ids \<notin> set ids"
proof (cases "ids = []")
  case True
  then show ?thesis by simp
next
  case False
  have "\<And>i. i \<in> set ids \<Longrightarrow> i \<le> Max (set ids)" by simp
  then have "Max (set ids) + 1 \<notin> set ids" by fastforce
  with False show ?thesis by (simp add: next_id_def)
qed

section \<open>Recommendation\<close>

text \<open>
  C2. When the model was not loaded (\<open>model\<close> is \<open>None\<close>), \<^verbatim>\<open>crop_recommendation\<close>
  answers 503 with its fixed message and returns the database it was given, whatever the
  request body and the condition of the engine.
\<close>

theorem crop_recommendation_model_unset:
  "model g = None \<Longrightarrow>
   crop_recommendation rt g fault request_json db =
     ((JObj [(''success'', JBool False),
             (''message'', JStr ''ML Model is not loaded.'')], 503), db)"
  by (simp add: crop_recommendation_def)

theorem crop_recommendation_model_unset_witness:
  "model (module_globals None) = None \<and>
   crop_recommendation example_runtime (module_globals None) None (Inr no_email_data) example_db =
     ((JObj [(''success'', JBool False),
             (''message'', JStr ''ML Model is not loaded.'')], 503), example_db)"
  using crop_recommendation_model_unset
    [where g = "module_globals None" and rt = example_runtime and fault = None
       and request_json = "Inr no_email_data" and db = example_db]
  by (simp add: module_globals_def)

text \<open>Small integers convert exactly.\<close>

lemma py_float_small [simp]:
  "\<bar>i\<bar> \<le> 2 ^ 53 \<Longrightarrow> py_float rt (JInt i) = Inr (Finite (of_int i))"
  by simp

declare py_float.simps(2) [simp del]

text \<open>
  Read literally, C1 fails where a field coerces to NaN: \<^verbatim>\<open>float("nan")\<close> succeeds, the
  classifier below labels the row, and the row is written with NULL in that column, which
  is not the coerced value.
\<close>

theorem crop_recommendation_nan_stored_null:
  "sbind (getitem nan_data ''N'') (py_float example_runtime) = Inr NaN
   \<and> crop_recommendation example_runtime (module_globals (Some rice_model)) None
       (Inr nan_data) empty_db =
       ((JObj [(''success'', JBool True),
               (''recommended_crop'', JStr ''rice''),
               (''model_accuracy'', JFloat (Finite 99.32)),
               (''message'', JStr ''Crop recommended successfully!'')], 200),
        \<lparr>farmers = [],
         recommendations =
           [\<lparr>rec_id = 1, farmer_email = ''asha@farm.in'', crop_name = Text ''rice'',
             N = None, P = Some (Finite 10), K = Some (Finite 10),
             Temperature = Some (Finite 30), Humidity = Some (Finite 50),
             PH = Some (Finite 6.5), Rainfall = Some (Finite 100)\<rparr>]\<rparr>)
   \<and> N (last (recommendations (snd (crop_recommendation example_runtime
         (module_globals (Some rice_model)) None (Inr nan_data) empty_db)))) \<noteq> Some NaN"
  by (simp add: crop_recommendation_def crop_recommendation_try_def
      add_commit_CropRecommendation_def bind_Float_def module_globals_def rice_model_def
      nan_data_def example_runtime_def empty_db_def next_id_def MODEL_ACCURACY_def)

text \<open>
  C1. With the model loaded, a request whose seven fields all coerce to floats and whose
  \<^verbatim>\<open>farmer_email\<close> is a string, a classifier that returns string labels for the feature
  vector and an engine that executes the commit: \<^verbatim>\<open>crop_recommendation\<close> appends
  exactly one row, under a fresh id, holding the seven coerced values (NULL where the
  coerced value is NaN), the email and the first label, changes nothing else, and answers
  200 with that label and the accuracy 99.32.
\<close>

theorem crop_recommendation_success:
  assumes "model g = Some m"
    and "fault = None"
    and "request_json = Inr data"
    and "sbind (getitem data ''N'') (py_float rt) = Inr n"
    and "sbind (getitem data ''P'') (py_float rt) = Inr p"
    and "sbind (getitem data ''K'') (py_float rt) = Inr k"
    and "sbind (getitem data ''Temperature'') (py_float rt) = Inr t"
    and "sbind (getitem data ''Humidity'') (py_float rt) = Inr h"
    and "sbind (getitem data ''PH'') (py_float rt) = Inr ph"
    and "sbind (getitem data ''Rainfall'') (py_float rt) = Inr r"
    and "getitem data ''farmer_email'' = Inr (JStr e)"
    and "m [[n, p, k, t, h, ph, r]] = Inr (Str s # rest)"
  shows "crop_recommendation rt g fault request_json db =
     ((JObj [(''success'', JBool True),
             (''recommended_crop'', JStr s),
             (''model_accuracy'', JFloat (Finite 99.32)),
             (''message'', JStr ''Crop recommended successfully!'')], 200),
      db\<lparr>recommendations := recommendations db @
           [\<lparr>rec_id = next_id (map rec_id (recommendations db)),
             farmer_email = e, crop_name = Text s,
             N = (if n = NaN then None else Some n),
             P = (if p = NaN then None else Some p),
             K = (if k = NaN then None else Some k),
             Temperature = (if t = NaN then None else Some t),
             Humidity = (if h = NaN then None else Some h),
             PH = (if ph = NaN then None else Some ph),
             Rainfall = (if r = NaN then None else Some r)\<rparr>]\<rparr>)
   \<and> next_id (map rec_id (recommendations db)) \<notin> set (map rec_id (recommendations db))"
  using assms next_id_fresh [of "map rec_id (recommendations db)"]
  by (simp add: crop_recommendation_def crop_recommendation_try_def
      add_commit_CropRecommendation_def bind_Float_def MODEL_ACCURACY_def)

theorem crop_recommendation_success_witness:
  "crop_recommendation example_runtime (module_globals (Some rice_model)) None
      (Inr soil_data) example_db =
     ((JObj [(''success'', JBool True),
             (''recommended_crop'', JStr ''rice''),
             (''model_accuracy'', JFloat (Finite 99.32)),
             (''message'', JStr ''Crop recommended successfully!'')], 200),
      \<lparr>farmers = [asha, ravi],
       recommendations =
         [rice_row 1 ''asha@farm.in'', rice_row 2 ''nobody@farm.in'',
          \<lparr>rec_id = 3, farmer_email = ''asha@farm.in'', crop_name = Text ''rice'',
            N = Some (Finite 120), P = Some (Finite 10), K = Some (Finite 10),
            Temperature = Some (Finite 30), Humidity = Some (Finite 50),
            PH = Some (Finite 6.5), Rainfall = Some (Finite 100)\<rparr>]\<rparr>)"
  using crop_recommendation_success
    [where g = "module_globals (Some rice_model)" and m = rice_model and fault = None
       and request_json = "Inr soil_data" and data = soil_data and rt = example_runtime
       and n = "Finite 120" and p = "Finite 10" and k = "Finite 10" and t = "Finite 30"
       and h = "Finite 50" and ph = "Finite 6.5" and r = "Finite 100"
       and e = "''asha@farm.in''" and s = "''rice''" and rest = "[]" and db = example_db]
  by (simp add: module_globals_def rice_model_def soil_data_def example_runtime_def
      example_db_def rice_row_def next_id_def)







section \<open>Registration\<close>

lemma find_email_None: "find (\<lambda>f. email f = e) fs = None \<longleftrightarrow> e \<notin> email ` set fs"
  by (auto simp: find_None_iff)

lemma find_email_Some: "find (\<lambda>f. email f = e) fs = Some f \<Longrightarrow> e \<in> email ` set fs"
  by (auto simp: find_Some_iff)

text \<open>What \<^verbatim>\<open>register\<close> does with a string email and a string password.\<close>

lemma register_strings:
  assumes "get data ''email'' = Inr (JStr e)"
    and "get data ''password'' = Inr (JStr pw)"
  shows "register rt None (Inr data) db =
     (if e \<in> set (map email (farmers db))
      then (Inr (JObj [(''success'', JBool False),
                       (''message'', JStr ''Email already registered!'')], 400), db)
      else (Inr (JObj [(''success'', JBool True),
                       (''message'', JStr ''Registration successful!'')], 200),
            db\<lparr>farmers := farmers db @
                 [\<lparr>farmer_id = next_id (map farmer_id (farmers db)),
                   email = e, password = pw\<rparr>]\<rparr>))"
proof (cases "find (\<lambda>f. email f = e) (farmers db)")
  case None
  moreover from None have "e \<notin> email ` set (farmers db)" by (simp add: find_email_None)
  ultimately show ?thesis
    using assms
    by (simp add: register_def filter_by_email_first_def add_commit_Farmer_def)
next
  case (Some f)
  moreover from Some have "e \<in> email ` set (farmers db)" by (rule find_email_Some)
  ultimately show ?thesis
    using assms
    by (simp add: register_def filter_by_email_first_def)
qed

lemma one_row_for_email:
  "distinct (map email fs) \<Longrightarrow> e \<in> email ` set fs \<Longrightarrow>
   length (filter (\<lambda>f. email f = e) fs) = 1"
proof (induction fs)
  case Nil
  then show ?case by simp
next
  case (Cons f fs)
  show ?case
  proof (cases "email f = e")
    case True
    with Cons.prems have "e \<notin> email ` set fs" by auto
    then have "filter (\<lambda>f. email f = e) fs = []"
      by (auto simp: filter_empty_conv)
    with True show ?thesis by simp
  next
    case False
    with Cons show ?thesis by auto
  qed
qed

text \<open>
  C3. For a register request that gives a string email and a string password, with the
  engine working: the answer is the 400 "already registered" response exactly when a farmer
  with that email is stored, and then the database is unchanged; otherwise one row with
  that email and password is appended and the answer is the success response. Registering
  the same email a second time is answered 400, adds nothing, and a table whose emails
  were unique holds exactly one row for that email.
\<close>

theorem register_conflict_iff:
  assumes "fault = None"
    and "request_json = Inr data"
    and "get data ''email'' = Inr (JStr e)"
    and "get data ''password'' = Inr (JStr pw)"
    and "get data' ''email'' = Inr (JStr e)"
    and "get data' ''password'' = Inr (JStr pw')"
  shows "(fst (register rt fault request_json db) =
            Inr (JObj [(''success'', JBool False),
                       (''message'', JStr ''Email already registered!'')], 400)
          \<longleftrightarrow> e \<in> set (map email (farmers db)))
       \<and> (e \<in> set (map email (farmers db)) \<longrightarrow>
            snd (register rt fault request_json db) = db)
       \<and> (e \<notin> set (map email (farmers db)) \<longrightarrow>
            register rt fault request_json db =
              (Inr (JObj [(''success'', JBool True),
                          (''message'', JStr ''Registration successful!'')], 200),
               db\<lparr>farmers := farmers db @
                    [\<lparr>farmer_id = next_id (map farmer_id (farmers db)),
                      email = e, password = pw\<rparr>]\<rparr>))
       \<and> (unique_emails db \<longrightarrow>
            (let db1 = snd (register rt fault request_json db);
                 second = register rt fault (Inr data') db1
             in fst second =
                  Inr (JObj [(''success'', JBool False),
                             (''message'', JStr ''Email already registered!'')], 400)
                \<and> snd second = db1
                \<and> length (filter (\<lambda>f. email f = e) (farmers (snd second))) = 1))"
proof -
  let ?db1 = "snd (register rt None (Inr data) db)"
  have first: "register rt None (Inr data) db =
     (if e \<in> set (map email (farmers db))
      then (Inr (JObj [(''success'', JBool False),
                       (''message'', JStr ''Email already registered!'')], 400), db)
      else (Inr (JObj [(''success'', JBool True),
                       (''message'', JStr ''Registration successful!'')], 200),
            db\<lparr>farmers := farmers db @
                 [\<lparr>farmer_id = next_id (map farmer_id (farmers db)),
                   email = e, password = pw\<rparr>]\<rparr>))"
    using assms(3,4) by (rule register_strings)
  have stored: "e \<in> set (map email (farmers ?db1))"
    by (simp add: first)
  have uniq: "unique_emails db \<Longrightarrow> unique_emails ?db1"
    by (simp add: first unique_emails_def)
  have second: "register rt None (Inr data') ?db1 =
      (Inr (JObj [(''success'', JBool False),
                  (''message'', JStr ''Email already registered!'')], 400), ?db1)"
    using register_strings [OF assms(5,6), of rt ?db1] stored by simp
  have count: "unique_emails db \<Longrightarrow> length (filter (\<lambda>f. email f = e) (farmers ?db1)) = 1"
    using uniq stored by (simp add: unique_emails_def one_row_for_email)
  show ?thesis
    unfolding assms(1,2) Let_def second
    using first count by simp
qed

theorem register_conflict_iff_witness:
  "register example_runtime None (credentials ''mira@farm.in'' ''rabi'') example_db =
     (Inr (JObj [(''success'', JBool True),
                 (''message'', JStr ''Registration successful!'')], 200),
      \<lparr>farmers = [asha, ravi,
                  \<lparr>farmer_id = 3, email = ''mira@farm.in'', password = ''rabi''\<rparr>],
       recommendations = recommendations example_db\<rparr>)
   \<and> fst (register example_runtime None (credentials ''mira@farm.in'' ''zaid'')
             (snd (register example_runtime None (credentials ''mira@farm.in'' ''rabi'')
                     example_db))) =
       Inr (JObj [(''success'', JBool False),
                  (''message'', JStr ''Email already registered!'')], 400)
   \<and> length (filter (\<lambda>f. email f = ''mira@farm.in'')
         (farmers (snd (register example_runtime None (credentials ''mira@farm.in'' ''zaid'')
             (snd (register example_runtime None (credentials ''mira@farm.in'' ''rabi'')
                     example_db)))))) = 1"
proof -
  let ?d = "JObj [(''email'', JStr ''mira@farm.in''), (''password'', JStr ''rabi'')]"
  let ?d' = "JObj [(''email'', JStr ''mira@farm.in''), (''password'', JStr ''zaid'')]"
  have g: "get ?d ''email'' = Inr (JStr ''mira@farm.in'')"
    "get ?d ''password'' = Inr (JStr ''rabi'')"
    "get ?d' ''email'' = Inr (JStr ''mira@farm.in'')"
    "get ?d' ''password'' = Inr (JStr ''zaid'')"
    by simp_all
  have fresh: "''mira@farm.in'' \<notin> set (map email (farmers example_db))"
    by (simp add: example_db_def asha_def ravi_def)
  have uniq: "unique_emails example_db"
    by (simp add: unique_emails_def example_db_def asha_def ravi_def)
  note facts = register_conflict_iff [OF refl refl g, of example_runtime example_db]
  from facts fresh have first:
    "register example_runtime None (Inr ?d) example_db =
       (Inr (JObj [(''success'', JBool True),
                   (''message'', JStr ''Registration successful!'')], 200),
        example_db\<lparr>farmers := farmers example_db @
           [\<lparr>farmer_id = next_id (map farmer_id (farmers example_db)),
             email = ''mira@farm.in'', password = ''rabi''\<rparr>]\<rparr>)"
    by blast
  from facts uniq have twice:
    "let db1 = snd (register example_runtime None (Inr ?d) example_db);
         second = register example_runtime None (Inr ?d') db1
     in fst second =
          Inr (JObj [(''success'', JBool False),
                     (''message'', JStr ''Email already registered!'')], 400)
        \<and> snd second = db1
        \<and> length (filter (\<lambda>f. email f = ''mira@farm.in'') (farmers (snd second))) = 1"
    by blast
  have next3: "next_id (map farmer_id (farmers example_db)) = 3"
    by (simp add: next_id_def example_db_def asha_def ravi_def)
  from twice have again:
    "fst (register example_runtime None (Inr ?d')
            (snd (register example_runtime None (Inr ?d) example_db))) =
       Inr (JObj [(''success'', JBool False),
                  (''message'', JStr ''Email already registered!'')], 400)"
    and count:
    "length (filter (\<lambda>f. email f = ''mira@farm.in'')
       (farmers (snd (register example_runtime None (Inr ?d')
            (snd (register example_runtime None (Inr ?d) example_db)))))) = 1"
    unfolding Let_def by blast+
  have "register example_runtime None (Inr ?d) example_db =
     (Inr (JObj [(''success'', JBool True),
                 (''message'', JStr ''Registration successful!'')], 200),
      \<lparr>farmers = [asha, ravi,
                  \<lparr>farmer_id = 3, email = ''mira@farm.in'', password = ''rabi''\<rparr>],
       recommendations = recommendations example_db\<rparr>)"
    unfolding first next3 by (simp add: example_db_def)
  with again count show ?thesis
    unfolding credentials_def by blast
qed

section \<open>Login\<close>

lemma find_creds_None:
  "find (\<lambda>f. email f = e \<and> password f = pw) fs = None
     \<longleftrightarrow> \<not> (\<exists>f \<in> set fs. email f = e \<and> password f = pw)"
  by (auto simp: find_None_iff)

text \<open>
  C6. For a login request that gives a string email and a string password, with the engine
  working: the answer is the success response greeting that email exactly when some stored
  farmer has that email and that password (compared as they are stored, in plain text),
  and the 401 response with the message "Invalid credentials." in every other case.
\<close>

theorem login_iff:
  assumes "fault = None"
    and "request_json = Inr data"
    and "get data ''email'' = Inr (JStr e)"
    and "get data ''password'' = Inr (JStr pw)"
  shows "login rt fault request_json db =
     Inr (if \<exists>f \<in> set (farmers db). email f = e \<and> password f = pw
          then (JObj [(''success'', JBool True),
                      (''message'', JStr (''Welcome '' @ e @ ''!''))], 200)
          else (JObj [(''success'', JBool False),
                      (''message'', JStr ''Invalid credentials.'')], 401))"
proof (cases "find (\<lambda>f. email f = e \<and> password f = pw) (farmers db)")
  case None
  moreover from None have "\<not> (\<exists>f \<in> set (farmers db). email f = e \<and> password f = pw)"
    by (simp add: find_creds_None)
  ultimately show ?thesis
    using assms by (simp add: login_def filter_by_email_password_first_def)
next
  case (Some f)
  then have "find (\<lambda>f. email f = e \<and> password f = pw) (farmers db) \<noteq> None" by simp
  then have "\<exists>f \<in> set (farmers db). email f = e \<and> password f = pw"
    by (simp add: find_creds_None)
  with Some show ?thesis
    using assms by (simp add: login_def filter_by_email_password_first_def)
qed

theorem login_iff_witness:
  "login example_runtime None (credentials ''asha@farm.in'' ''monsoon'') example_db =
     Inr (JObj [(''success'', JBool True),
                (''message'', JStr ''Welcome asha@farm.in!'')], 200)
   \<and> login example_runtime None (credentials ''asha@farm.in'' ''kharif'') example_db =
     Inr (JObj [(''success'', JBool False),
                (''message'', JStr ''Invalid credentials.'')], 401)"
proof
  have "get (JObj [(''email'', JStr ''asha@farm.in''), (''password'', JStr ''monsoon'')])
          ''email'' = Inr (JStr ''asha@farm.in'')"
    and "get (JObj [(''email'', JStr ''asha@farm.in''), (''password'', JStr ''monsoon'')])
          ''password'' = Inr (JStr ''monsoon'')"
    by simp_all
  from login_iff [OF refl refl this, of example_runtime example_db]
  show "login example_runtime None (credentials ''asha@farm.in'' ''monsoon'') example_db =
     Inr (JObj [(''success'', JBool True),
                (''message'', JStr ''Welcome asha@farm.in!'')], 200)"
    by (simp add: credentials_def example_db_def asha_def ravi_def)
next
  have "get (JObj [(''email'', JStr ''asha@farm.in''), (''password'', JStr ''kharif'')])
          ''email'' = Inr (JStr ''asha@farm.in'')"
    and "get (JObj [(''email'', JStr ''asha@farm.in''), (''password'', JStr ''kharif'')])
          ''password'' = Inr (JStr ''kharif'')"
    by simp_all
  from login_iff [OF refl refl this, of example_runtime example_db]
  show "login example_runtime None (credentials ''asha@farm.in'' ''kharif'') example_db =
     Inr (JObj [(''success'', JBool False),
                (''message'', JStr ''Invalid credentials.'')], 401)"
    by (simp add: credentials_def example_db_def asha_def ravi_def)
qed

text \<open>
  C10. Two login requests whose lookup finds no stored farmer get the same response,
  status 401 with the message "Invalid credentials.": the response to a wrong password
  for a stored email is the response to an email that is not stored.
\<close>

theorem login_failures_identical:
  assumes "get data ''email'' = Inr email_v"
    and "get data ''password'' = Inr password_v"
    and "filter_by_email_password_first rt fault email_v password_v db = Inr None"
    and "get data' ''email'' = Inr email_v'"
    and "get data' ''password'' = Inr password_v'"
    and "filter_by_email_password_first rt fault' email_v' password_v' db' = Inr None"
  shows "login rt fault (Inr data) db =
           Inr (JObj [(''success'', JBool False),
                      (''message'', JStr ''Invalid credentials.'')], 401)
       \<and> login rt fault' (Inr data') db' = login rt fault (Inr data) db"
  using assms by (simp add: login_def)

theorem login_failures_identical_witness:
  "login example_runtime None (credentials ''asha@farm.in'' ''kharif'') example_db =
     Inr (JObj [(''success'', JBool False),
                (''message'', JStr ''Invalid credentials.'')], 401)
   \<and> login example_runtime None (credentials ''nobody@farm.in'' ''monsoon'') example_db =
       login example_runtime None (credentials ''asha@farm.in'' ''kharif'') example_db"
proof -
  let ?d = "JObj [(''email'', JStr ''asha@farm.in''), (''password'', JStr ''kharif'')]"
  let ?d' = "JObj [(''email'', JStr ''nobody@farm.in''), (''password'', JStr ''monsoon'')]"
  have wrong_password:
    "get ?d ''email'' = Inr (JStr ''asha@farm.in'')"
    "get ?d ''password'' = Inr (JStr ''kharif'')"
    "filter_by_email_password_first example_runtime None
       (JStr ''asha@farm.in'') (JStr ''kharif'') example_db = Inr None"
    by (simp_all add: filter_by_email_password_first_def example_db_def asha_def ravi_def)
  have unknown_email:
    "get ?d' ''email'' = Inr (JStr ''nobody@farm.in'')"
    "get ?d' ''password'' = Inr (JStr ''monsoon'')"
    "filter_by_email_password_first example_runtime None
       (JStr ''nobody@farm.in'') (JStr ''monsoon'') example_db = Inr None"
    by (simp_all add: filter_by_email_password_first_def example_db_def asha_def ravi_def)
  from login_failures_identical [OF wrong_password unknown_email]
  show ?thesis unfolding credentials_def .
qed

section \<open>Admin dump\<close>

text \<open>Sorting by a key without repetitions and reversing gives strictly descending keys.\<close>

lemma desc_sorted:
  assumes "distinct (map rec_id rs)"
  shows "sorted_wrt (>) (map rec_id (rev (sort_key rec_id rs)))"
proof -
  have "mset (map rec_id (sort_key rec_id rs)) = mset (map rec_id rs)" by simp
  then have "distinct (map rec_id (sort_key rec_id rs))"
    using assms mset_eq_imp_distinct_iff by blast
  moreover have "sorted (map rec_id (sort_key rec_id rs))" by simp
  ultimately have "sorted_wrt (<) (map rec_id (sort_key rec_id rs))"
    by (simp add: strict_sorted_iff)
  then show ?thesis
    by (simp add: rev_map [symmetric] sorted_wrt_rev)
qed

text \<open>Rows whose crop names are text are all printed, each with its ten columns.\<close>

lemma jsonify_all_text:
  assumes "\<forall>r \<in> set rs. \<exists>s. crop_name r = Text s"
  shows "jsonify_all rec_entry rs =
     Inr (map (\<lambda>r. JObj [(''id'', JInt (rec_id r)),
                         (''farmer_email'', JStr (farmer_email r)),
                         (''crop_name'', JStr (chars (crop_name r))),
                         (''N'', (case N r of None \<Rightarrow> JNull | Some x \<Rightarrow> JFloat x)),
                         (''P'', (case P r of None \<Rightarrow> JNull | Some x \<Rightarrow> JFloat x)),
                         (''K'', (case K r of None \<Rightarrow> JNull | Some x \<Rightarrow> JFloat x)),
                         (''Temperature'',
                            (case Temperature r of None \<Rightarrow> JNull | Some x \<Rightarrow> JFloat x)),
                         (''Humidity'',
                            (case Humidity r of None \<Rightarrow> JNull | Some x \<Rightarrow> JFloat x)),
                         (''PH'', (case PH r of None \<Rightarrow> JNull | Some x \<Rightarrow> JFloat x)),
                         (''Rainfall'',
                            (case Rainfall r of None \<Rightarrow> JNull | Some x \<Rightarrow> JFloat x))])
               rs)"
    (is "jsonify_all rec_entry rs = Inr (map ?entry rs)")
  using assms
proof (induction rs)
  case Nil
  then show ?case by simp
next
  case (Cons r rs)
  from Cons.prems obtain s where "crop_name r = Text s" by auto
  then have head: "rec_entry r = Inr (?entry r)"
    by (simp add: rec_entry_def json_float_def)
  from Cons have tail: "jsonify_all rec_entry rs = Inr (map ?entry rs)" by simp
  show ?case by (simp add: head tail)
qed

text \<open>
  Read literally, C5 fails on a table that holds a blob in \<^verbatim>\<open>crop_name\<close>, which one
  recommendation request with a classifier whose labels are \<^verbatim>\<open>bytes\<close> leaves behind:
  the column is read back as \<^verbatim>\<open>bytes\<close>, \<^verbatim>\<open>jsonify\<close> raises, and the answer is 500.
\<close>

theorem admin_data_blob_row:
  "run example_runtime (module_globals (Some bytes_model))
      [(None, Crop_recommendation (Inr soil_data))] empty_db =
     \<lparr>farmers = [],
      recommendations =
        [\<lparr>rec_id = 1, farmer_email = ''asha@farm.in'', crop_name = Blob ''rice'',
          N = Some (Finite 120), P = Some (Finite 10), K = Some (Finite 10),
          Temperature = Some (Finite 30), Humidity = Some (Finite 50),
          PH = Some (Finite 6.5), Rainfall = Some (Finite 100)\<rparr>]\<rparr>
   \<and> admin_data None
       \<lparr>farmers = [],
        recommendations =
          [\<lparr>rec_id = 1, farmer_email = ''asha@farm.in'', crop_name = Blob ''rice'',
            N = Some (Finite 120), P = Some (Finite 10), K = Some (Finite 10),
            Temperature = Some (Finite 30), Humidity = Some (Finite 50),
            PH = Some (Finite 6.5), Rainfall = Some (Finite 100)\<rparr>]\<rparr> =
     (JObj [(''success'', JBool False),
            (''message'', JStr ''Object of type bytes is not JSON serializable'')], 500)"
  by (simp add: run_def crop_recommendation_def crop_recommendation_try_def
      add_commit_CropRecommendation_def bind_Float_def module_globals_def bytes_model_def
      soil_data_def example_runtime_def empty_db_def next_id_def
      admin_data_def query_all_Farmer_def query_all_CropRecommendation_desc_def
      rec_entry_def)

text \<open>
  C5. With the engine working, the primary key of the recommendation table free of
  repetitions and every stored crop name text, \<^verbatim>\<open>admin_data\<close> answers 200 with one entry
  (id and email) per stored farmer, in table order, and one entry (all ten columns as
  stored, NULL printed as null) per stored recommendation: the entries are those of a
  rearrangement of the table, so there are as many as rows, and their ids are strictly
  descending.
\<close>

theorem admin_data_dump:
  assumes "fault = None"
    and "distinct (map rec_id (recommendations db))"
    and "\<forall>r \<in> set (recommendations db). \<exists>s. crop_name r = Text s"
  shows "\<exists>recs.
      admin_data fault db =
        (JObj [(''success'', JBool True),
               (''farmers'',
                  JArr (map (\<lambda>f. JObj [(''id'', JInt (farmer_id f)), (''email'', JStr (email f))])
                        (farmers db))),
               (''recommendations'',
                  JArr (map (\<lambda>r. JObj
                     [(''id'', JInt (rec_id r)),
                      (''farmer_email'', JStr (farmer_email r)),
                      (''crop_name'', JStr (chars (crop_name r))),
                      (''N'', (case N r of None \<Rightarrow> JNull | Some x \<Rightarrow> JFloat x)),
                      (''P'', (case P r of None \<Rightarrow> JNull | Some x \<Rightarrow> JFloat x)),
                      (''K'', (case K r of None \<Rightarrow> JNull | Some x \<Rightarrow> JFloat x)),
                      (''Temperature'',
                         (case Temperature r of None \<Rightarrow> JNull | Some x \<Rightarrow> JFloat x)),
                      (''Humidity'',
                         (case Humidity r of None \<Rightarrow> JNull | Some x \<Rightarrow> JFloat x)),
                      (''PH'', (case PH r of None \<Rightarrow> JNull | Some x \<Rightarrow> JFloat x)),
                      (''Rainfall'',
                         (case Rainfall r of None \<Rightarrow> JNull | Some x \<Rightarrow> JFloat x))])
                        recs))], 200)
    \<and> mset recs = mset (recommendations db)
    \<and> length recs = length (recommendations db)
    \<and> sorted_wrt (>) (map rec_id recs)"
proof (intro exI conjI)
  let ?recs = "rev (sort_key rec_id (recommendations db))"
  have "\<forall>r \<in> set ?recs. \<exists>s. crop_name r = Text s"
    using assms(3) by simp
  then show "admin_data fault db =
        (JObj [(''success'', JBool True),
               (''farmers'',
                  JArr (map (\<lambda>f. JObj [(''id'', JInt (farmer_id f)), (''email'', JStr (email f))])
                        (farmers db))),
               (''recommendations'',
                  JArr (map (\<lambda>r. JObj
                     [(''id'', JInt (rec_id r)),
                      (''farmer_email'', JStr (farmer_email r)),
                      (''crop_name'', JStr (chars (crop_name r))),
                      (''N'', (case N r of None \<Rightarrow> JNull | Some x \<Rightarrow> JFloat x)),
                      (''P'', (case P r of None \<Rightarrow> JNull | Some x \<Rightarrow> JFloat x)),
                      (''K'', (case K r of None \<Rightarrow> JNull | Some x \<Rightarrow> JFloat x)),
                      (''Temperature'',
                         (case Temperature r of None \<Rightarrow> JNull | Some x \<Rightarrow> JFloat x)),
                      (''Humidity'',
                         (case Humidity r of None \<Rightarrow> JNull | Some x \<Rightarrow> JFloat x)),
                      (''PH'', (case PH r of None \<Rightarrow> JNull | Some x \<Rightarrow> JFloat x)),
                      (''Rainfall'',
                         (case Rainfall r of None \<Rightarrow> JNull | Some x \<Rightarrow> JFloat x))])
                        ?recs))], 200)"
    using assms(1)
    by (simp add: admin_data_def query_all_Farmer_def query_all_CropRecommendation_desc_def
        farmer_entry_def jsonify_all_text)
  show "mset ?recs = mset (recommendations db)" by simp
  show "length ?recs = length (recommendations db)" by simp
  show "sorted_wrt (>) (map rec_id ?recs)" using assms(2) by (rule desc_sorted)
qed

theorem admin_data_dump_witness:
  "admin_data None example_db =
     (JObj [(''success'', JBool True),
            (''farmers'',
               JArr [JObj [(''id'', JInt 1), (''email'', JStr ''asha@farm.in'')],
                     JObj [(''id'', JInt 2), (''email'', JStr ''ravi@farm.in'')]]),
            (''recommendations'',
               JArr [JObj [(''id'', JInt 2),
                           (''farmer_email'', JStr ''nobody@farm.in''),
                           (''crop_name'', JStr ''rice''),
                           (''N'', JFloat (Finite 120)),
                           (''P'', JFloat (Finite 10)),
                           (''K'', JFloat (Finite 10)),
                           (''Temperature'', JFloat (Finite 30)),
                           (''Humidity'', JFloat (Finite 50)),
                           (''PH'', JFloat (Finite 6.5)),
                           (''Rainfall'', JFloat (Finite 100))],
                     JObj [(''id'', JInt 1),
                           (''farmer_email'', JStr ''asha@farm.in''),
                           (''crop_name'', JStr ''rice''),
                           (''N'', JFloat (Finite 120)),
                           (''P'', JFloat (Finite 10)),
                           (''K'', JFloat (Finite 10)),
                           (''Temperature'', JFloat (Finite 30)),
                           (''Humidity'', JFloat (Finite 50)),
                           (''PH'', JFloat (Finite 6.5)),
                           (''Rainfall'', JFloat (Finite 100))]])], 200)"
proof -
  have ids: "distinct (map rec_id (recommendations example_db))"
    by (simp add: example_db_def rice_row_def)
  have texts: "\<forall>r \<in> set (recommendations example_db). \<exists>s. crop_name r = Text s"
    by (simp add: example_db_def rice_row_def)
  from admin_data_dump [OF refl ids texts]
  obtain recs where dump:
    "admin_data None example_db =
        (JObj [(''success'', JBool True),
               (''farmers'',
                  JArr (map (\<lambda>f. JObj [(''id'', JInt (farmer_id f)), (''email'', JStr (email f))])
                        (farmers example_db))),
               (''recommendations'',
                  JArr (map (\<lambda>r. JObj
                     [(''id'', JInt (rec_id r)),
                      (''farmer_email'', JStr (farmer_email r)),
                      (''crop_name'', JStr (chars (crop_name r))),
                      (''N'', (case N r of None \<Rightarrow> JNull | Some x \<Rightarrow> JFloat x)),
                      (''P'', (case P r of None \<Rightarrow> JNull | Some x \<Rightarrow> JFloat x)),
                      (''K'', (case K r of None \<Rightarrow> JNull | Some x \<Rightarrow> JFloat x)),
                      (''Temperature'',
                         (case Temperature r of None \<Rightarrow> JNull | Some x \<Rightarrow> JFloat x)),
                      (''Humidity'',
                         (case Humidity r of None \<Rightarrow> JNull | Some x \<Rightarrow> JFloat x)),
                      (''PH'', (case PH r of None \<Rightarrow> JNull | Some x \<Rightarrow> JFloat x)),
                      (''Rainfall'',
                         (case Rainfall r of None \<Rightarrow> JNull | Some x \<Rightarrow> JFloat x))])
                        recs))], 200)"
    and perm: "mset recs = mset (recommendations example_db)"
    and desc: "sorted_wrt (>) (map rec_id recs)"
    by blast
  from perm have "length recs = 2"
    using mset_eq_length [OF perm] by (simp add: example_db_def)
  then obtain a b where ab: "recs = [a, b]"
    by (metis (no_types, opaque_lifting) One_nat_def Suc_1 length_0_conv length_Suc_conv)
  from perm have "set recs = set (recommendations example_db)" by (rule mset_eq_setD)
  with ab have "{a, b} = {rice_row 1 ''asha@farm.in'', rice_row 2 ''nobody@farm.in''}"
    by (simp add: example_db_def)
  moreover from desc ab have "rec_id a > rec_id b" by simp
  ultimately have "a = rice_row 2 ''nobody@farm.in'' \<and> b = rice_row 1 ''asha@farm.in''"
    by (auto simp: doubleton_eq_iff rice_row_def)
  with dump ab show ?thesis
    by (simp add: example_db_def asha_def ravi_def rice_row_def)
qed

text \<open>
  C9. The 500 response of \<^verbatim>\<open>crop_recommendation\<close> is the fixed message shown under C4.
  The 500 response of \<^verbatim>\<open>admin_data\<close> is not: its message is \<^verbatim>\<open>str(e)\<close>, the text of the
  exception that was caught, so two different failures of the engine give two different
  bodies.
\<close>

theorem admin_data_error_exposes_exception:
  "admin_data (Some msg) db =
     (JObj [(''success'', JBool False), (''message'', JStr msg)], 500)
   \<and> admin_data (Some ''no such table: farmer'') example_db \<noteq>
       admin_data (Some ''database is locked'') example_db"
  by (simp add: admin_data_def query_all_Farmer_def)

section \<open>Invariants over sequences of requests\<close>

lemma farmers_crop_recommendation:
  "farmers (snd (crop_recommendation rt g fault rq db)) = farmers db"
proof (cases "model g")
  case None
  then show ?thesis by (simp add: crop_recommendation_def)
next
  case (Some m)
  have "farmers (snd (crop_recommendation_try rt m fault rq db)) = farmers db"
    unfolding crop_recommendation_try_def add_commit_CropRecommendation_def
    by (auto simp: attempt_def Let_def sbind_def split: sum.splits option.splits)
  with Some show ?thesis
    by (auto simp: crop_recommendation_def split: prod.splits sum.splits)
qed

lemma add_commit_Farmer_unique:
  "add_commit_Farmer rt fault ev pv db = Inr db' \<Longrightarrow> unique_emails db \<Longrightarrow> unique_emails db'"
  unfolding add_commit_Farmer_def unique_emails_def
  by (auto simp: sbind_def split: sum.splits option.splits if_splits)

lemma register_unique:
  "unique_emails db \<Longrightarrow> unique_emails (snd (register rt fault rq db))"
  unfolding register_def
  by (auto simp: attempt_def split: sum.splits option.splits dest: add_commit_Farmer_unique)

lemma step_unique: "unique_emails db \<Longrightarrow> unique_emails (step rt g c db)"
proof (cases c)
  case (Pair fault call)
  assume u: "unique_emails db"
  show ?thesis
  proof (cases call)
    case (Register rq)
    with Pair u show ?thesis by (simp add: register_unique)
  next
    case (Login rq)
    with Pair u show ?thesis by simp
  next
    case (Crop_recommendation rq)
    with Pair u show ?thesis by (simp add: unique_emails_def farmers_crop_recommendation)
  next
    case Admin_data
    with Pair u show ?thesis by simp
  qed
qed

lemma run_unique: "unique_emails db \<Longrightarrow> unique_emails (run rt g cs db)"
  unfolding run_def
  by (induction cs arbitrary: db) (simp_all add: step_unique)

text \<open>
  C7. If no two farmers share an email, then after any sequence of register, login,
  crop_recommendation and admin_data requests, whatever their bodies and whatever the
  engine's condition at each of them, no two farmers share an email. Referential integrity
  of \<^verbatim>\<open>farmer_email\<close> is not preserved: it holds in the empty database and fails after
  one recommendation request that names an email nobody registered.
\<close>

theorem unique_emails_invariant:
  "(unique_emails db \<longrightarrow> unique_emails (run rt g cs db))
   \<and> referential_integrity empty_db
   \<and> \<not> referential_integrity
         (run example_runtime (module_globals (Some rice_model))
            [(None, Crop_recommendation (Inr soil_data))] empty_db)"
proof (intro conjI impI)
  assume "unique_emails db"
  then show "unique_emails (run rt g cs db)" by (rule run_unique)
next
  show "referential_integrity empty_db"
    by (simp add: referential_integrity_def empty_db_def)
next
  have "crop_recommendation example_runtime (module_globals (Some rice_model)) None
          (Inr soil_data) empty_db =
        ((JObj [(''success'', JBool True),
                (''recommended_crop'', JStr ''rice''),
                (''model_accuracy'', JFloat (Finite 99.32)),
                (''message'', JStr ''Crop recommended successfully!'')], 200),
         \<lparr>farmers = [], recommendations = [rice_row 1 ''asha@farm.in'']\<rparr>)"
    by (simp add: crop_recommendation_def crop_recommendation_try_def
        add_commit_CropRecommendation_def bind_Float_def module_globals_def rice_model_def
        soil_data_def example_runtime_def empty_db_def rice_row_def next_id_def
        MODEL_ACCURACY_def)
  then show "\<not> referential_integrity
         (run example_runtime (module_globals (Some rice_model))
            [(None, Crop_recommendation (Inr soil_data))] empty_db)"
    by (simp add: run_def referential_integrity_def)
qed

theorem unique_emails_invariant_witness:
  "unique_emails example_db
   \<and> unique_emails
        (run example_runtime (module_globals (Some rice_model))
           [(None, Register (credentials ''asha@farm.in'' ''zaid'')),
            (None, Register (credentials ''mira@farm.in'' ''rabi'')),
            (Some ''database is locked'', Register (credentials ''tara@farm.in'' ''rabi'')),
            (None, Login (credentials ''mira@farm.in'' ''rabi'')),
            (None, Crop_recommendation (Inr soil_data)),
            (None, Admin_data)]
           example_db)"
proof -
  have "unique_emails example_db"
    by (simp add: unique_emails_def example_db_def asha_def ravi_def)
  with unique_emails_invariant
    [where db = example_db and rt = example_runtime
       and g = "module_globals (Some rice_model)"
       and cs = "[(None, Register (credentials ''asha@farm.in'' ''zaid'')),
            (None, Register (credentials ''mira@farm.in'' ''rabi'')),
            (Some ''database is locked'', Register (credentials ''tara@farm.in'' ''rabi'')),
            (None, Login (credentials ''mira@farm.in'' ''rabi'')),
            (None, Crop_recommendation (Inr soil_data)),
            (None, Admin_data)]"]
  show ?thesis by blast
qed

section \<open>The fallback predictor\<close>

text \<open>
  C8. The response and the database that \<^verbatim>\<open>crop_recommendation\<close> returns do not depend
  on what the name \<^verbatim>\<open>predict_crop_mock\<close> is bound to; and with the predictor unset the
  answer is the 503 response, whatever the fallback would have returned.
\<close>

theorem crop_recommendation_ignores_mock:
  "crop_recommendation rt (g\<lparr>mock_predictor := f\<rparr>) fault request_json db =
     crop_recommendation rt g fault request_json db
   \<and> crop_recommendation rt (g\<lparr>model := None, mock_predictor := f\<rparr>) fault request_json db =
       ((JObj [(''success'', JBool False),
               (''message'', JStr ''ML Model is not loaded.'')], 503), db)"
  by (simp add: crop_recommendation_def)

theorem crop_recommendation_ignores_mock_witness:
  "predict_crop_mock [Finite 120, Finite 10, Finite 10, Finite 30, Finite 50, Finite 6.5,
                      Finite 100] = Inr ''Cotton''
   \<and> crop_recommendation example_runtime
       ((module_globals None)\<lparr>model := None, mock_predictor := predict_crop_mock\<rparr>)
       None (Inr soil_data) example_db =
       ((JObj [(''success'', JBool False),
               (''message'', JStr ''ML Model is not loaded.'')], 503), example_db)
   \<and> crop_recommendation example_runtime
       ((module_globals (Some rice_model))\<lparr>mock_predictor := (\<lambda>features. Inr ''Cotton'')\<rparr>)
       None (Inr soil_data) example_db =
     crop_recommendation example_runtime (module_globals (Some rice_model))
       None (Inr soil_data) example_db"
proof -
  have "predict_crop_mock [Finite 120, Finite 10, Finite 10, Finite 30, Finite 50, Finite 6.5,
                           Finite 100] = Inr ''Cotton''" by simp
  moreover note crop_recommendation_ignores_mock
    [where rt = example_runtime and g = "module_globals None" and f = predict_crop_mock
       and fault = None and request_json = "Inr soil_data" and db = example_db]
  moreover note crop_recommendation_ignores_mock
    [where rt = example_runtime and g = "module_globals (Some rice_model)"
       and f = "\<lambda>features. Inr ''Cotton''"
       and fault = None and request_json = "Inr soil_data" and db = example_db]
  ultimately show ?thesis by blast
qed

end
